theory Spec2Isabelle
  imports Complex_Main "HOL-Library.Sublist"
begin

section \<open>Local LLM service: values, strings and errors\<close>

text \<open>
  The service is a Python class \<^verbatim>\<open>LocalLLMService\<close> with a CLI entry point and an HTTP
  handler. Python is dynamically typed, so the values that reach the service from JSON or
  the command line are modelled by one datatype of Python values. Floats are only passed
  through and tested for zero, so they are carried as reals (NaN and the infinities have
  no counterpart here).
\<close>

datatype pyval =
    PNone
  | PBool bool
  | PInt int
  | PFloat real
  | PStr string
  | PList "pyval list"
  | PDict "(string \<times> pyval) list"

text \<open>
  The exception classes that the modelled code can meet. \<open>AdapterError\<close> stands for any
  \<^verbatim>\<open>Exception\<close> raised inside the external inference library.
\<close>

datatype py_error = AttributeError | TypeError | KeyError | ImportError | AdapterError

text \<open>Python truthiness, as used by \<^verbatim>\<open>if not prompt\<close> and \<^verbatim>\<open>if args.prompt\<close>.\<close>

fun truthy :: "pyval \<Rightarrow> bool" where
  "truthy PNone = False"
| "truthy (PBool b) = b"
| "truthy (PInt n) = (n \<noteq> 0)"
| "truthy (PFloat x) = (x \<noteq> 0)"
| "truthy (PStr s) = (s \<noteq> [])"
| "truthy (PList xs) = (xs \<noteq> [])"
| "truthy (PDict kvs) = (kvs \<noteq> [])"

subsection \<open>String operations of the Python runtime\<close>

text \<open>
  A \<open>char\<close> is read as one code point in the range 0 to 255. On that range
  \<^verbatim>\<open>str.lower\<close> shifts the letters A to Z and the Latin-1 capitals (192 to 222 except the
  multiplication sign 215) by 32 and leaves every other code point alone.
\<close>

definition lower_char :: "char \<Rightarrow> char" where
  "lower_char c =
     (let n = (of_char c :: nat)
      in if (65 \<le> n \<and> n \<le> 90) \<or> (192 \<le> n \<and> n \<le> 222 \<and> n \<noteq> 215)
         then char_of (n + 32) else c)"

definition str_lower :: "string \<Rightarrow> string" where
  "str_lower s = map lower_char s"

text \<open>
  \<^verbatim>\<open>str.isspace\<close> on the same range: tab to carriage return, the four separators 28 to
  31, space, next-line (133) and no-break space (160).
\<close>

definition is_space :: "char \<Rightarrow> bool" where
  "is_space c =
     (let n = (of_char c :: nat)
      in (9 \<le> n \<and> n \<le> 13) \<or> (28 \<le> n \<and> n \<le> 32) \<or> n = 133 \<or> n = 160)"

text \<open>\<^verbatim>\<open>str.strip()\<close> with no argument: drop whitespace at both ends.\<close>

definition strip :: "string \<Rightarrow> string" where
  "strip s = rev (dropWhile is_space (rev (dropWhile is_space s)))"

text \<open>\<^verbatim>\<open>sub in s\<close> on strings: \<open>sub\<close> occurs in \<open>s\<close> as a contiguous block.\<close>

fun starts_with :: "string \<Rightarrow> string \<Rightarrow> bool" where
  "starts_with [] s = True"
| "starts_with (c # cs) [] = False"
| "starts_with (c # cs) (d # ds) = (c = d \<and> starts_with cs ds)"

fun str_in :: "string \<Rightarrow> string \<Rightarrow> bool" where
  "str_in sub [] = (sub = [])"
| "str_in sub (c # cs) = (starts_with sub (c # cs) \<or> str_in sub cs)"

section \<open>Fallback responder\<close>

text \<open>The three literal templates of \<^verbatim>\<open>generate_fallback_response\<close>, line by line.\<close>

definition business_case_template :: string where
  "business_case_template =
     ''# Business Case Analysis\<newline>'' @
     ''\<newline>'' @
     ''Based on the project requirements, this initiative presents a compelling opportunity for organizational improvement. \<newline>'' @
     ''\<newline>'' @
     ''**Key Benefits:**\<newline>'' @
     ''- Enhanced operational efficiency through automation\<newline>'' @
     ''- Reduced manual effort and error rates  \<newline>'' @
     ''- Improved scalability and performance\<newline>'' @
     ''- Strategic competitive positioning\<newline>'' @
     ''\<newline>'' @
     ''**Investment Considerations:**\<newline>'' @
     ''- Initial implementation costs balanced by long-term savings\<newline>'' @
     ''- Risk mitigation through phased approach\<newline>'' @
     ''- Strong ROI potential based on efficiency gains\<newline>'' @
     ''\<newline>'' @
     ''**Recommendation:** Proceed with detailed planning and stakeholder alignment to maximize project success.''"

definition feasibility_template :: string where
  "feasibility_template =
     ''# Feasibility Assessment\<newline>'' @
     ''\<newline>'' @
     ''The proposed project demonstrates strong viability across multiple dimensions:\<newline>'' @
     ''\<newline>'' @
     ''**Technical Feasibility:** High - leveraging proven technologies and methodologies\<newline>'' @
     ''**Financial Feasibility:** Positive - reasonable investment with measurable returns  \<newline>'' @
     ''**Operational Feasibility:** Strong - aligns with current capabilities and growth objectives\<newline>'' @
     ''**Strategic Feasibility:** Excellent - supports long-term organizational goals\<newline>'' @
     ''\<newline>'' @
     ''**Risk Factors:** Manageable through proper planning and change management\<newline>'' @
     ''**Timeline:** Achievable with dedicated resources and stakeholder support\<newline>'' @
     ''\<newline>'' @
     ''**Overall Assessment:** PROCEED - Project shows high probability of success with appropriate execution.''"

definition generic_template :: string where
  "generic_template =
     ''Based on the requirements outlined, this represents a valuable initiative that can drive significant organizational benefits.\<newline>'' @
     ''\<newline>'' @
     ''Key considerations include strategic alignment, resource allocation, and implementation approach. Success will depend on effective planning, stakeholder engagement, and execution excellence.\<newline>'' @
     ''\<newline>'' @
     ''Recommend proceeding with detailed analysis and structured implementation planning.''"

text \<open>
  \<^verbatim>\<open>generate_fallback_response(self, prompt)\<close>. The method calls \<^verbatim>\<open>prompt.lower()\<close>
  first, which only a string has: every other value raises \<^verbatim>\<open>AttributeError\<close>.
\<close>

fun generate_fallback_response :: "pyval \<Rightarrow> py_error + string" where
  "generate_fallback_response (PStr prompt) =
     (if str_in ''business case'' (str_lower prompt) then Inr business_case_template
      else if str_in ''feasibility'' (str_lower prompt) then Inr feasibility_template
      else Inr generic_template)"
| "generate_fallback_response _ = Inl AttributeError"

section \<open>Inference engine adapter (external collaborator)\<close>

text \<open>
  The objects of the external library. A tokenizer carries the three attributes the code
  reads or writes; a model is opaque; the text-generation pipeline keeps the tokenizer it
  was built with (\<^verbatim>\<open>generator.tokenizer\<close>).
\<close>

record tokenizer_obj =
  pad_token :: "string option"
  eos_token :: "string option"
  eos_token_id :: "nat option"

type_synonym model_obj = nat

record pipeline_obj =
  pipeline_id :: nat
  pipeline_tokenizer :: tokenizer_obj

text \<open>One entry of \<^verbatim>\<open>self.models\<close>: the dict with keys generator, tokenizer and model.\<close>

record handle =
  generator :: pipeline_obj
  tokenizer :: tokenizer_obj
  model :: model_obj

text \<open>One element of the list a pipeline call returns: a dict from key to text.\<close>

type_synonym response = "string \<rightharpoonup> string"

text \<open>
  Everything the code asks of the outside world, as one record of answers:
  whether the in-function imports of \<^verbatim>\<open>load_model\<close> succeed, the three constructors
  of the inference library, the call of a pipeline (with the arguments that vary: prompt,
  \<^verbatim>\<open>max_new_tokens\<close>, \<^verbatim>\<open>temperature\<close>, \<^verbatim>\<open>pad_token_id\<close>; the others are constants
  of the call site), for \<^verbatim>\<open>install_dependencies\<close>, whether the packages import and
  whether \<^verbatim>\<open>pip install\<close> of a package succeeds, and, for \<^verbatim>\<open>start_server\<close>, whether
  \<^verbatim>\<open>flask\<close> imports and whether \<^verbatim>\<open>app.run\<close> gets the server going. An \<open>Inl\<close> answer is
  a raised exception.
\<close>

record adapter =
  import_libs :: bool
  cuda_available :: bool
  tokenizer_from_pretrained :: "string \<Rightarrow> py_error + tokenizer_obj"
  model_from_pretrained :: "string \<Rightarrow> bool \<Rightarrow> py_error + model_obj"
  make_pipeline :: "model_obj \<Rightarrow> tokenizer_obj \<Rightarrow> int \<Rightarrow> nat option \<Rightarrow> py_error + pipeline_obj"
  call_generator :: "pipeline_obj \<Rightarrow> pyval \<Rightarrow> pyval \<Rightarrow> pyval \<Rightarrow> nat option \<Rightarrow> py_error + response list"
  packages_importable :: bool
  pip_install :: "string \<Rightarrow> bool"
  flask_importable :: bool
  server_starts :: bool

text \<open>The adapter calls a method makes, in order, so that invocations can be counted.\<close>

datatype adapter_call =
    CallImport
  | CallTokenizer string
  | CallModel string
  | CallPipeline string
  | CallGenerator

section \<open>Model registry\<close>

text \<open>The two attributes of \<^verbatim>\<open>LocalLLMService\<close> and their values after \<^verbatim>\<open>__init__\<close>.\<close>

record service =
  models :: "string \<rightharpoonup> handle"
  current_model :: "string option"

definition init_service :: service where
  "init_service = \<lparr>models = Map.empty, current_model = None\<rparr>"

text \<open>
  Lines 64 to 94 of \<^verbatim>\<open>load_model\<close>: tokenizer (with the pad token filled in from the
  end-of-sequence token when missing), model, pipeline, and the dict stored in the
  registry. The first exception ends the construction.
\<close>

definition build_handle :: "adapter \<Rightarrow> string \<Rightarrow> (py_error + handle) \<times> adapter_call list" where
  "build_handle env model_name =
     (case tokenizer_from_pretrained env model_name of
        Inl e \<Rightarrow> (Inl e, [CallTokenizer model_name])
      | Inr tok0 \<Rightarrow>
          let tok = (if pad_token tok0 = None then tok0\<lparr>pad_token := eos_token tok0\<rparr> else tok0)
          in (case model_from_pretrained env model_name (cuda_available env) of
                Inl e \<Rightarrow> (Inl e, [CallTokenizer model_name, CallModel model_name])
              | Inr mdl \<Rightarrow>
                  (case make_pipeline env mdl tok (if cuda_available env then 0 else - 1)
                          (eos_token_id tok) of
                     Inl e \<Rightarrow>
                       (Inl e, [CallTokenizer model_name, CallModel model_name,
                                CallPipeline model_name])
                   | Inr gen \<Rightarrow>
                       (Inr \<lparr>generator = gen, tokenizer = tok, model = mdl\<rparr>,
                        [CallTokenizer model_name, CallModel model_name,
                         CallPipeline model_name]))))"

text \<open>
  \<^verbatim>\<open>load_model(self, model_name)\<close>: returns the boolean, the service afterwards and the
  adapter calls made. The imports run first, on every call; any exception inside the
  \<^verbatim>\<open>try\<close> gives \<^verbatim>\<open>False\<close> before any assignment to \<^verbatim>\<open>self\<close>.
\<close>

definition load_model :: "adapter \<Rightarrow> service \<Rightarrow> string \<Rightarrow> bool \<times> service \<times> adapter_call list" where
  "load_model env s model_name =
     (if \<not> import_libs env then (False, s, [CallImport])
      else if models s model_name = None then
        (case build_handle env model_name of
           (Inl e, calls) \<Rightarrow> (False, s, CallImport # calls)
         | (Inr h, calls) \<Rightarrow>
             (True,
              s\<lparr>models := (models s)(model_name \<mapsto> h), current_model := Some model_name\<rparr>,
              CallImport # calls))
      else (True, s\<lparr>current_model := Some model_name\<rparr>, [CallImport]))"

text \<open>The number of times the adapter's setup was entered in a list of calls.\<close>

fun setup_count :: "adapter_call list \<Rightarrow> nat" where
  "setup_count [] = 0"
| "setup_count (CallTokenizer n # cs) = Suc (setup_count cs)"
| "setup_count (c # cs) = setup_count cs"

section \<open>Generation pipeline\<close>

text \<open>\<^verbatim>\<open>prompt[:100]\<close>: strings and lists can be sliced, the other values raise.\<close>

fun slice_to :: "nat \<Rightarrow> pyval \<Rightarrow> py_error + pyval" where
  "slice_to n (PStr s) = Inr (PStr (take n s))"
| "slice_to n (PList xs) = Inr (PList (take n xs))"
| "slice_to n _ = Inl TypeError"

text \<open>The body of the \<^verbatim>\<open>try\<close> block of \<^verbatim>\<open>generate_text\<close>.\<close>

definition generate_text_try :: "adapter \<Rightarrow> service \<Rightarrow> pyval \<Rightarrow> pyval \<Rightarrow> pyval \<Rightarrow> py_error + string" where
  "generate_text_try env s prompt max_length temperature =
     (case current_model s of
        None \<Rightarrow> generate_fallback_response prompt
      | Some cur \<Rightarrow>
          (case models s cur of
             None \<Rightarrow> generate_fallback_response prompt
           | Some h \<Rightarrow>
               (case slice_to 100 prompt of
                  Inl e \<Rightarrow> Inl e
                | Inr shown \<Rightarrow>
                    (case call_generator env (generator h) prompt max_length temperature
                            (eos_token_id (pipeline_tokenizer (generator h))) of
                       Inl e \<Rightarrow> Inl e
                     | Inr [] \<Rightarrow> generate_fallback_response prompt
                     | Inr (r # rs) \<Rightarrow>
                         (case r ''generated_text'' of
                            None \<Rightarrow> Inl KeyError
                          | Some text \<Rightarrow> Inr (strip text))))))"

text \<open>
  \<^verbatim>\<open>generate_text(self, prompt, max_length, temperature)\<close>: the \<^verbatim>\<open>except Exception\<close>
  handler answers with the fallback, whose own exception (if any) leaves the method.
  No attribute of \<^verbatim>\<open>self\<close> is assigned.
\<close>

definition generate_text :: "adapter \<Rightarrow> service \<Rightarrow> pyval \<Rightarrow> pyval \<Rightarrow> pyval \<Rightarrow> (py_error + string) \<times> service" where
  "generate_text env s prompt max_length temperature =
     (case generate_text_try env s prompt max_length temperature of
        Inr text \<Rightarrow> (Inr text, s)
      | Inl e \<Rightarrow> (generate_fallback_response prompt, s))"

section \<open>Request handlers\<close>

subsection \<open>Command line\<close>

text \<open>
  \<^verbatim>\<open>install_dependencies\<close>: nothing to do when the packages import; otherwise the four
  packages are installed in order and the first failing \<^verbatim>\<open>pip install\<close> gives \<^verbatim>\<open>False\<close>.
\<close>

definition packages :: "string list" where
  "packages = [''transformers>=4.35.0'', ''torch>=2.0.0'', ''sentencepiece>=0.1.99'',
               ''accelerate>=0.20.0'']"

fun install_loop :: "(string \<Rightarrow> bool) \<Rightarrow> string list \<Rightarrow> bool" where
  "install_loop pip [] = True"
| "install_loop pip (package # rest) = (if pip package then install_loop pip rest else False)"

definition install_dependencies :: "adapter \<Rightarrow> bool" where
  "install_dependencies env =
     (if packages_importable env then True else install_loop (pip_install env) packages)"

text \<open>The namespace \<^verbatim>\<open>argparse\<close> returns for the five options of \<^verbatim>\<open>main\<close>.\<close>

record cli_args =
  arg_install :: bool
  arg_model :: string
  arg_prompt :: "string option"
  arg_max_length :: int
  arg_temperature :: real

text \<open>
  \<^verbatim>\<open>main()\<close>: the exit status and the lines printed. The parser of the standard library
  is a parameter: it gives the namespace, or the status with which it ends the process.
  An exception that left \<^verbatim>\<open>generate_text\<close> would end the process with status 1.
\<close>

definition main :: "adapter \<Rightarrow> (string list \<Rightarrow> int + cli_args) \<Rightarrow> string list \<Rightarrow> int \<times> string list" where
  "main env parse_args argv =
     (case parse_args (tl argv) of
        Inl code \<Rightarrow> (code, [])
      | Inr args \<Rightarrow>
          if arg_install args \<and> \<not> install_dependencies env then (1, [])
          else (case arg_prompt args of
                  None \<Rightarrow> (0, [])
                | Some p \<Rightarrow>
                    if p = [] then (0, [])
                    else (let (ok, s', calls) = load_model env init_service (arg_model args)
                          in if ok
                             then (case fst (generate_text env s' (PStr p)
                                               (PInt (arg_max_length args))
                                               (PFloat (arg_temperature args))) of
                                     Inr result \<Rightarrow> (0, [result])
                                   | Inl e \<Rightarrow> (1, []))
                             else (1, []))))"

text \<open>
  The block under \<^verbatim>\<open>if __name__ == "__main__"\<close>, on \<^verbatim>\<open>sys.argv\<close>. Its first branch
  calls \<^verbatim>\<open>install_dependencies\<close> and drops the result; the script then ends normally.
\<close>

datatype outcome = Exited int "string list" | Serving

text \<open>
  \<^verbatim>\<open>start_server()\<close> up to the point where \<^verbatim>\<open>app.run\<close> blocks. Its first statement
  imports \<^verbatim>\<open>flask\<close> outside any \<^verbatim>\<open>try\<close>: when that raises, the exception reaches the
  top of the script and the process ends with status 1; so does a server that cannot be
  started. The handler the server installs is \<open>generate_route\<close> below.
\<close>

definition start_server :: "adapter \<Rightarrow> outcome" where
  "start_server env =
     (if \<not> flask_importable env then Exited 1 []
      else if \<not> server_starts env then Exited 1 []
      else Serving)"

definition run_script :: "adapter \<Rightarrow> (string list \<Rightarrow> int + cli_args) \<Rightarrow> string list \<Rightarrow> outcome" where
  "run_script env parse_args argv =
     (if length argv > 1 \<and> argv ! 1 = ''--install''
      then (let installed = install_dependencies env in Exited 0 [])
      else if length argv > 1 \<and> argv ! 1 = ''--server'' then start_server env
      else (case main env parse_args argv of (code, printed) \<Rightarrow> Exited code printed))"

subsection \<open>HTTP\<close>

text \<open>\<^verbatim>\<open>data.get(key, default)\<close> on a dict.\<close>

definition dict_get :: "(string \<times> pyval) list \<Rightarrow> string \<Rightarrow> pyval \<Rightarrow> pyval" where
  "dict_get d k dflt = (case map_of d k of None \<Rightarrow> dflt | Some v \<Rightarrow> v)"

record http_response =
  status_code :: nat
  body :: "(string \<times> pyval) list"

text \<open>
  The \<^verbatim>\<open>try\<close> block of the \<^verbatim>\<open>/generate\<close> handler. The request is what
  \<^verbatim>\<open>request.get_json()\<close> gives: a parsed JSON value or an exception. Only a dict has
  \<^verbatim>\<open>get\<close>. The log line slices the prompt before the pipeline is called.
\<close>

definition generate_route_try :: "adapter \<Rightarrow> service \<Rightarrow> py_error + pyval \<Rightarrow> py_error + http_response" where
  "generate_route_try env s request =
     (case request of
        Inl e \<Rightarrow> Inl e
      | Inr (PDict d) \<Rightarrow>
          (let prompt = dict_get d ''prompt'' (PStr []);
               max_length = dict_get d ''max_length'' (PInt 500);
               temperature = dict_get d ''temperature'' (PFloat 0.7)
           in if \<not> truthy prompt
              then Inr \<lparr>status_code = 400, body = [(''error'', PStr ''No prompt provided'')]\<rparr>
              else (case slice_to 100 prompt of
                      Inl e \<Rightarrow> Inl e
                    | Inr shown \<Rightarrow>
                        (case fst (generate_text env s prompt max_length temperature) of
                           Inl e \<Rightarrow> Inl e
                         | Inr result \<Rightarrow>
                             Inr \<lparr>status_code = 200,
                                  body = [(''generated_text'', PStr result),
                                          (''status'', PStr ''success'')]\<rparr>)))
      | Inr other \<Rightarrow> Inl AttributeError)"

text \<open>
  The handler with its \<^verbatim>\<open>except Exception\<close> clause; \<open>exc_str\<close> is the interpreter's
  \<^verbatim>\<open>str(e)\<close>.
\<close>

definition generate_route :: "(py_error \<Rightarrow> string) \<Rightarrow> adapter \<Rightarrow> service \<Rightarrow> py_error + pyval \<Rightarrow> http_response" where
  "generate_route exc_str env s request =
     (case generate_route_try env s request of
        Inr response \<Rightarrow> response
      | Inl e \<Rightarrow>
          \<lparr>status_code = 500,
           body = [(''error'', PStr (exc_str e)), (''status'', PStr ''error'')]\<rparr>)"

section \<open>Sequences of registry operations\<close>

text \<open>
  The two public operations on a service, each with the answers of the outside world at
  the time of the call, and the service after a sequence of them.
\<close>

datatype operation =
    Load adapter string
  | Generate adapter pyval pyval pyval

fun apply_operation :: "service \<Rightarrow> operation \<Rightarrow> service" where
  "apply_operation s (Load env model_name) = fst (snd (load_model env s model_name))"
| "apply_operation s (Generate env prompt max_length temperature) =
     snd (generate_text env s prompt max_length temperature)"

fun run_operations :: "service \<Rightarrow> operation list \<Rightarrow> service" where
  "run_operations s [] = s"
| "run_operations s (x # xs) = run_operations (apply_operation s x) xs"

text \<open>
  The interpreter keeps the modules it has imported. Only \<^verbatim>\<open>load_model\<close> imports the
  inference library, so within one process the imports at a call succeed whenever they
  succeeded at an earlier load: \<open>module_cache earlier env\<close> says that the answers \<open>env\<close>
  of a call are of this kind after the operations \<open>earlier\<close>.
\<close>

fun imports_done :: "operation \<Rightarrow> bool" where
  "imports_done (Load env model_name) = import_libs env"
| "imports_done (Generate env prompt max_length temperature) = False"

definition module_cache :: "operation list \<Rightarrow> adapter \<Rightarrow> bool" where
  "module_cache earlier env = (list_ex imports_done earlier \<longrightarrow> import_libs env)"

section \<open>Sample environments\<close>

text \<open>
  A working installation whose pipeline answers every call with one padded text, and
  variations of it: an installation without the library, a library whose tokenizer
  cannot be built, a pipeline that raises, one that answers with nothing and one that
  answers with blanks.
\<close>

definition sample_tokenizer :: tokenizer_obj where
  "sample_tokenizer = \<lparr>pad_token = None, eos_token = Some ''<|endoftext|>'', eos_token_id = Some 50256\<rparr>"

definition working_adapter :: adapter where
  "working_adapter =
     \<lparr>import_libs = True,
      cuda_available = False,
      tokenizer_from_pretrained = (\<lambda>n. Inr sample_tokenizer),
      model_from_pretrained = (\<lambda>n auto. Inr 1),
      make_pipeline = (\<lambda>mdl tok device pad. Inr \<lparr>pipeline_id = 1, pipeline_tokenizer = tok\<rparr>),
      call_generator = (\<lambda>gen prompt n t pad. Inr [[''generated_text'' \<mapsto> ''  Hello there. '']]),
      packages_importable = True,
      pip_install = (\<lambda>package. True),
      flask_importable = True,
      server_starts = True\<rparr>"

definition missing_library :: adapter where
  "missing_library =
     working_adapter\<lparr>import_libs := False, packages_importable := False,
                     pip_install := (\<lambda>package. False)\<rparr>"

definition missing_flask :: adapter where
  "missing_flask = working_adapter\<lparr>flask_importable := False\<rparr>"

definition broken_tokenizer :: adapter where
  "broken_tokenizer = working_adapter\<lparr>tokenizer_from_pretrained := (\<lambda>n. Inl AdapterError)\<rparr>"

definition raising_pipeline :: adapter where
  "raising_pipeline = working_adapter\<lparr>call_generator := (\<lambda>gen prompt n t pad. Inl AdapterError)\<rparr>"

definition silent_pipeline :: adapter where
  "silent_pipeline = working_adapter\<lparr>call_generator := (\<lambda>gen prompt n t pad. Inr [])\<rparr>"

definition blank_pipeline :: adapter where
  "blank_pipeline =
     working_adapter\<lparr>call_generator := (\<lambda>gen prompt n t pad. Inr [[''generated_text'' \<mapsto> ''   '']])\<rparr>"

text \<open>A service in which the model \<open>m\<close> has been loaded from the working installation.\<close>

definition loaded_service :: service where
  "loaded_service = fst (snd (load_model working_adapter init_service ''m''))"

text \<open>The handle that this load stores: the pad token has been filled in.\<close>

definition sample_handle :: handle where
  "sample_handle =
     \<lparr>generator = \<lparr>pipeline_id = 1,
                    pipeline_tokenizer = sample_tokenizer\<lparr>pad_token := Some ''<|endoftext|>''\<rparr>\<rparr>,
      tokenizer = sample_tokenizer\<lparr>pad_token := Some ''<|endoftext|>''\<rparr>,
      model = 1\<rparr>"

text \<open>A parser answer for the command line \<^verbatim>\<open>--model m --install\<close>.\<close>

definition install_args :: cli_args where
  "install_args = \<lparr>arg_install = True, arg_model = ''m'', arg_prompt = None,
                   arg_max_length = 800, arg_temperature = 0.7\<rparr>"

text \<open>A parser that answers with that namespace, and a rendering of exceptions as text.\<close>

definition install_parser :: "string list \<Rightarrow> int + cli_args" where
  "install_parser argv = Inr install_args"

fun error_text :: "py_error \<Rightarrow> string" where
  "error_text AttributeError = ''AttributeError''"
| "error_text TypeError = ''TypeError''"
| "error_text KeyError = ''KeyError''"
| "error_text ImportError = ''ImportError''"
| "error_text AdapterError = ''AdapterError''"

section \<open>Properties of the fallback responder\<close>

text \<open>The membership test is the contiguous-sublist relation of the list library.\<close>

lemma starts_with_prefix: "starts_with xs ys \<longleftrightarrow> prefix xs ys"
  by (induction xs ys rule: starts_with.induct) auto

lemma str_in_sublist: "str_in sub s \<longleftrightarrow> sublist sub s"
  by (induction s) (auto simp: starts_with_prefix sublist_Cons_right)

text \<open>What the three templates contain.\<close>

lemma business_case_heading: "str_in ''Business Case Analysis'' business_case_template"
  by code_simp

lemma business_case_recommendation: "str_in ''Recommendation:'' business_case_template"
  by code_simp

lemma feasibility_heading: "str_in ''Feasibility Assessment'' feasibility_template"
  by code_simp

lemma feasibility_overall: "str_in ''**Overall Assessment:** PROCEED'' feasibility_template"
  by code_simp

lemma generic_recommend: "str_in ''Recommend proceeding with detailed analysis'' generic_template"
  by code_simp

text \<open>
  C7. A prompt whose lower-cased text contains "business case" gets the business-case
  template, which includes "Business Case Analysis" and "Recommendation:". Nothing is
  assumed about "feasibility": the first test of the method decides.
\<close>

theorem fallback_business_case:
  assumes "str_in ''business case'' (str_lower prompt)"
  shows "generate_fallback_response (PStr prompt) = Inr business_case_template
         \<and> str_in ''Business Case Analysis'' business_case_template
         \<and> str_in ''Recommendation:'' business_case_template"
  using assms by (simp add: business_case_heading business_case_recommendation)

text \<open>A prompt with both keywords, in mixed case, is answered by the business-case template.\<close>

theorem fallback_business_case_witness:
  "str_in ''business case'' (str_lower ''Feasibility of the Business Case'')
   \<and> str_in ''feasibility'' (str_lower ''Feasibility of the Business Case'')
   \<and> generate_fallback_response (PStr ''Feasibility of the Business Case'') = Inr business_case_template
   \<and> str_in ''Business Case Analysis'' business_case_template
   \<and> str_in ''Recommendation:'' business_case_template"
proof -
  have h: "str_in ''business case'' (str_lower ''Feasibility of the Business Case'')"
    by code_simp
  have f: "str_in ''feasibility'' (str_lower ''Feasibility of the Business Case'')"
    by code_simp
  from fallback_business_case [OF h] h f show ?thesis by simp
qed

text \<open>
  C2, as the code has it. A prompt whose lower-cased text contains "feasibility" and not
  "business case" gets the feasibility template. The template includes "Feasibility
  Assessment"; its last paragraph starts with the bold heading
  "**Overall Assessment:** PROCEED", so the asterisks stand between the colon and the
  verdict.
\<close>

theorem fallback_feasibility:
  assumes "str_in ''feasibility'' (str_lower prompt)"
    and "\<not> str_in ''business case'' (str_lower prompt)"
  shows "generate_fallback_response (PStr prompt) = Inr feasibility_template
         \<and> str_in ''Feasibility Assessment'' feasibility_template
         \<and> str_in ''**Overall Assessment:** PROCEED'' feasibility_template"
  using assms by (simp add: feasibility_heading feasibility_overall)

theorem fallback_feasibility_witness:
  "str_in ''feasibility'' (str_lower ''Give me a FEASIBILITY study'')
   \<and> \<not> str_in ''business case'' (str_lower ''Give me a FEASIBILITY study'')
   \<and> generate_fallback_response (PStr ''Give me a FEASIBILITY study'') = Inr feasibility_template
   \<and> str_in ''Feasibility Assessment'' feasibility_template
   \<and> str_in ''**Overall Assessment:** PROCEED'' feasibility_template"
proof -
  have h: "str_in ''feasibility'' (str_lower ''Give me a FEASIBILITY study'')"
    by code_simp
  have n: "\<not> str_in ''business case'' (str_lower ''Give me a FEASIBILITY study'')"
    by code_simp
  from fallback_feasibility [OF h n] h n show ?thesis by simp
qed

text \<open>
  C2, as the claim words it. For the prompt "Give me a feasibility study" the answer is
  the feasibility template, and the unformatted text "Overall Assessment: PROCEED" does
  not occur in it.
\<close>

theorem fallback_feasibility_literal_missing:
  "str_in ''feasibility'' (str_lower ''Give me a feasibility study'')
   \<and> \<not> str_in ''business case'' (str_lower ''Give me a feasibility study'')
   \<and> generate_fallback_response (PStr ''Give me a feasibility study'') = Inr feasibility_template
   \<and> \<not> str_in ''Overall Assessment: PROCEED'' feasibility_template"
proof -
  have h: "str_in ''feasibility'' (str_lower ''Give me a feasibility study'')"
    by code_simp
  have n: "\<not> str_in ''business case'' (str_lower ''Give me a feasibility study'')"
    by code_simp
  have m: "\<not> str_in ''Overall Assessment: PROCEED'' feasibility_template"
    by code_simp
  from h n m show ?thesis by simp
qed

text \<open>
  C8. A prompt whose lower-cased text contains neither keyword gets the generic template,
  which includes "Recommend proceeding with detailed analysis".
\<close>

theorem fallback_generic:
  assumes "\<not> str_in ''business case'' (str_lower prompt)"
    and "\<not> str_in ''feasibility'' (str_lower prompt)"
  shows "generate_fallback_response (PStr prompt) = Inr generic_template
         \<and> str_in ''Recommend proceeding with detailed analysis'' generic_template"
  using assms by (simp add: generic_recommend)

theorem fallback_generic_witness:
  "\<not> str_in ''business case'' (str_lower ''Hello'')
   \<and> \<not> str_in ''feasibility'' (str_lower ''Hello'')
   \<and> generate_fallback_response (PStr ''Hello'') = Inr generic_template
   \<and> str_in ''Recommend proceeding with detailed analysis'' generic_template"
proof -
  have b: "\<not> str_in ''business case'' (str_lower ''Hello'')"
    by code_simp
  have f: "\<not> str_in ''feasibility'' (str_lower ''Hello'')"
    by code_simp
  from fallback_generic [OF b f] b f show ?thesis by simp
qed

section \<open>Properties of the model registry\<close>

text \<open>Building a handle enters the adapter's setup once, whatever its outcome.\<close>

lemma build_handle_setup_count: "setup_count (snd (build_handle env model_name)) = 1"
  by (simp add: build_handle_def Let_def split: sum.splits)

lemma setup_count_append: "setup_count (xs @ ys) = setup_count xs + setup_count ys"
  by (induction xs rule: setup_count.induct) simp_all

lemma load_model_miss_success:
  assumes "models s model_name = None" and "fst (load_model env s model_name)"
  shows "\<exists>h. load_model env s model_name =
           (True, s\<lparr>models := (models s)(model_name \<mapsto> h), current_model := Some model_name\<rparr>,
            CallImport # snd (build_handle env model_name))"
  using assms by (auto simp: load_model_def split: if_splits sum.splits prod.splits)

text \<open>
  C4. For a name that is not a key of the mapping, when the imports fail or the
  construction of the handle raises, \<^verbatim>\<open>load_model\<close> returns \<^verbatim>\<open>False\<close> and the service is
  the one before the call: same mapping, same current model.
\<close>

theorem load_model_failure:
  assumes "models s model_name = None"
    and "\<not> import_libs env \<or> (\<exists>e. fst (build_handle env model_name) = Inl e)"
  shows "fst (load_model env s model_name) = False
         \<and> fst (snd (load_model env s model_name)) = s
         \<and> models (fst (snd (load_model env s model_name))) = models s
         \<and> current_model (fst (snd (load_model env s model_name))) = current_model s"
  using assms by (auto simp: load_model_def split: sum.splits prod.splits)

text \<open>A tokenizer that cannot be built, on the fresh service.\<close>

theorem load_model_failure_witness:
  "models init_service ''m'' = None
   \<and> fst (build_handle broken_tokenizer ''m'') = Inl AdapterError
   \<and> fst (load_model broken_tokenizer init_service ''m'') = False
   \<and> fst (snd (load_model broken_tokenizer init_service ''m'')) = init_service"
proof -
  have a: "models init_service ''m'' = None"
    by (simp add: init_service_def)
  have b: "fst (build_handle broken_tokenizer ''m'') = Inl AdapterError"
    by (simp add: build_handle_def broken_tokenizer_def working_adapter_def)
  then have c: "\<not> import_libs broken_tokenizer \<or> (\<exists>e. fst (build_handle broken_tokenizer ''m'') = Inl e)"
    by simp
  from load_model_failure [OF a c] a b show ?thesis by simp
qed

text \<open>
  When the imports raise, the method answers \<^verbatim>\<open>False\<close> whatever the mapping holds; when
  they succeed, a name that is a key is answered from the mapping.
\<close>

lemma load_model_import_failure:
  assumes "\<not> import_libs env"
  shows "load_model env s model_name = (False, s, [CallImport])"
  using assms by (simp add: load_model_def)

lemma load_model_hit:
  assumes "import_libs env" and "models s model_name \<noteq> None"
  shows "load_model env s model_name = (True, s\<lparr>current_model := Some model_name\<rparr>, [CallImport])"
  using assms by (auto simp: load_model_def)

text \<open>
  A key of the mapping was stored by a load whose imports succeeded, so the module cache
  makes the imports of every later call succeed.
\<close>

lemma apply_operation_key:
  assumes "models (apply_operation s x) n \<noteq> None"
  shows "models s n \<noteq> None \<or> imports_done x"
proof (cases x)
  case (Load env model_name)
  with assms show ?thesis
    by (auto simp: load_model_def split: if_splits sum.splits prod.splits)
next
  case (Generate env prompt max_length temperature)
  with assms show ?thesis
    by (simp add: generate_text_def split: sum.splits)
qed

lemma run_operations_key:
  assumes "models (run_operations s xs) n \<noteq> None"
  shows "models s n \<noteq> None \<or> list_ex imports_done xs"
  using assms
proof (induction xs arbitrary: s)
  case Nil
  then show ?case by simp
next
  case (Cons x xs)
  from Cons.prems have "models (run_operations (apply_operation s x) xs) n \<noteq> None"
    by simp
  then have "models (apply_operation s x) n \<noteq> None \<or> list_ex imports_done xs"
    by (rule Cons.IH)
  then show ?case
    using apply_operation_key [of s x n] by auto
qed

lemma key_imports:
  assumes "models (run_operations init_service ops) n \<noteq> None" and "module_cache ops env"
  shows "import_libs env"
proof -
  from run_operations_key [OF assms(1)] have "list_ex imports_done ops"
    by (simp add: init_service_def)
  with assms(2) show ?thesis by (simp add: module_cache_def)
qed

text \<open>
  C5. Let the service be the one reached from the fresh service by any sequence of loads
  and generations, and let the call see the module cache of that process. Then a name
  that is already a key gives \<^verbatim>\<open>True\<close> with no setup call, the current model set to the
  name and the mapping as it was. When the name is new and the load succeeds, the next
  load of the same name finds the entry and returns the same service, so both calls
  together enter the setup once.
\<close>

theorem load_model_cache_hit:
  fixes ops :: "operation list" and env env2 :: adapter and model_name :: string
  defines "s \<equiv> run_operations init_service ops"
  assumes "module_cache ops env"
  shows "(models s model_name \<noteq> None \<longrightarrow>
            load_model env s model_name = (True, s\<lparr>current_model := Some model_name\<rparr>, [CallImport])
            \<and> setup_count (snd (snd (load_model env s model_name))) = 0
            \<and> models (fst (snd (load_model env s model_name))) = models s
            \<and> current_model (fst (snd (load_model env s model_name))) = Some model_name)
       \<and> (models s model_name = None \<and> fst (load_model env s model_name)
            \<and> module_cache (ops @ [Load env model_name]) env2 \<longrightarrow>
            load_model env2 (fst (snd (load_model env s model_name))) model_name =
              (True, fst (snd (load_model env s model_name)), [CallImport])
            \<and> setup_count (snd (snd (load_model env s model_name))
                 @ snd (snd (load_model env2 (fst (snd (load_model env s model_name))) model_name))) = 1)"
proof (intro conjI impI)
  assume hit: "models s model_name \<noteq> None"
  then have "import_libs env"
    using assms(2) key_imports unfolding s_def by blast
  then have r: "load_model env s model_name = (True, s\<lparr>current_model := Some model_name\<rparr>, [CallImport])"
    using hit by (rule load_model_hit)
  from r show "load_model env s model_name = (True, s\<lparr>current_model := Some model_name\<rparr>, [CallImport])" .
  from r show "setup_count (snd (snd (load_model env s model_name))) = 0" by simp
  from r show "models (fst (snd (load_model env s model_name))) = models s" by simp
  from r show "current_model (fst (snd (load_model env s model_name))) = Some model_name" by simp
next
  assume first: "models s model_name = None \<and> fst (load_model env s model_name)
            \<and> module_cache (ops @ [Load env model_name]) env2"
  then obtain h where l: "load_model env s model_name =
           (True, s\<lparr>models := (models s)(model_name \<mapsto> h), current_model := Some model_name\<rparr>,
            CallImport # snd (build_handle env model_name))"
    using load_model_miss_success by blast
  have "import_libs env"
  proof (rule ccontr)
    assume "\<not> import_libs env"
    then have "load_model env s model_name = (False, s, [CallImport])"
      by (rule load_model_import_failure)
    with first show False by simp
  qed
  with first have "import_libs env2"
    by (simp add: module_cache_def)
  with l show second: "load_model env2 (fst (snd (load_model env s model_name))) model_name =
              (True, fst (snd (load_model env s model_name)), [CallImport])"
    by (simp add: load_model_def)
  from l second show "setup_count (snd (snd (load_model env s model_name))
                 @ snd (snd (load_model env2 (fst (snd (load_model env s model_name))) model_name))) = 1"
    by (simp add: build_handle_setup_count setup_count_append)
qed

text \<open>The sample service with \<open>m\<close> loaded, written out.\<close>

lemma loaded_service_eq:
  "loaded_service = \<lparr>models = [''m'' \<mapsto> sample_handle], current_model = Some ''m''\<rparr>"
  by (simp add: loaded_service_def load_model_def build_handle_def working_adapter_def
      init_service_def sample_tokenizer_def sample_handle_def Let_def)

text \<open>
  A second load of \<open>m\<close> in the process that loaded it, and the two loads of \<open>m\<close> from
  the fresh service counted together.
\<close>

theorem load_model_cache_hit_witness:
  "module_cache [Load working_adapter ''m''] working_adapter
   \<and> run_operations init_service [Load working_adapter ''m''] = loaded_service
   \<and> models loaded_service ''m'' \<noteq> None
   \<and> load_model working_adapter loaded_service ''m'' = (True, loaded_service, [CallImport])
   \<and> module_cache [] working_adapter
   \<and> models init_service ''m'' = None
   \<and> fst (load_model working_adapter init_service ''m'')
   \<and> module_cache ([] @ [Load working_adapter ''m'']) working_adapter
   \<and> setup_count (snd (snd (load_model working_adapter init_service ''m''))
        @ snd (snd (load_model working_adapter loaded_service ''m''))) = 1"
proof -
  have c1: "module_cache [Load working_adapter ''m''] working_adapter"
    by (simp add: module_cache_def working_adapter_def)
  have c0: "module_cache [] working_adapter"
    by (simp add: module_cache_def)
  have c2: "module_cache ([] @ [Load working_adapter ''m'']) working_adapter"
    by (simp add: module_cache_def working_adapter_def)
  have run: "run_operations init_service [Load working_adapter ''m''] = loaded_service"
    by (simp add: loaded_service_def)
  have k: "models loaded_service ''m'' \<noteq> None"
    by (simp add: loaded_service_eq)
  have same: "loaded_service\<lparr>current_model := Some ''m''\<rparr> = loaded_service"
    by (simp add: loaded_service_eq)
  have n: "models init_service ''m'' = None"
    by (simp add: init_service_def)
  have f: "fst (load_model working_adapter init_service ''m'')"
    by (simp add: load_model_def build_handle_def working_adapter_def init_service_def Let_def)
  note again = load_model_cache_hit [OF c1, of "''m''", unfolded run]
  note twice = load_model_cache_hit [OF c0, of "''m''" working_adapter,
      unfolded run_operations.simps(1), folded loaded_service_def]
  from again k same have a: "load_model working_adapter loaded_service ''m'' = (True, loaded_service, [CallImport])"
    by simp
  from twice n f c2 have b: "setup_count (snd (snd (load_model working_adapter init_service ''m''))
        @ snd (snd (load_model working_adapter loaded_service ''m''))) = 1"
    by blast
  from c1 run k a c0 n f c2 b show ?thesis by blast
qed

section \<open>The registry invariant\<close>

text \<open>Generation leaves the service as it is; a load keeps the current model a key.\<close>

lemma generate_text_state: "snd (generate_text env s prompt max_length temperature) = s"
  by (simp add: generate_text_def split: sum.splits)

lemma load_model_current:
  assumes "\<And>n. current_model s = Some n \<Longrightarrow> models s n \<noteq> None"
    and "current_model (fst (snd (load_model env s model_name))) = Some n"
  shows "models (fst (snd (load_model env s model_name))) n \<noteq> None"
  using assms by (auto simp: load_model_def split: if_splits sum.splits prod.splits)

lemma apply_operation_current:
  assumes "\<And>n. current_model s = Some n \<Longrightarrow> models s n \<noteq> None"
    and "current_model (apply_operation s x) = Some n"
  shows "models (apply_operation s x) n \<noteq> None"
proof (cases x)
  case (Load env model_name)
  with assms load_model_current [of s env model_name n] show ?thesis by simp
next
  case (Generate env prompt max_length temperature)
  with assms show ?thesis by (simp add: generate_text_state)
qed

lemma run_operations_current:
  assumes "\<And>n. current_model s = Some n \<Longrightarrow> models s n \<noteq> None"
    and "current_model (run_operations s xs) = Some n"
  shows "models (run_operations s xs) n \<noteq> None"
  using assms
proof (induction xs arbitrary: s)
  case Nil
  then show ?case by simp
next
  case (Cons x xs)
  have "\<And>k. current_model (apply_operation s x) = Some k \<Longrightarrow> models (apply_operation s x) k \<noteq> None"
    using Cons.prems(1) apply_operation_current by blast
  with Cons.IH [of "apply_operation s x"] Cons.prems(2) show ?case by simp
qed

text \<open>
  C6. After any sequence of loads and generations from the fresh service, whatever the
  outside world answers at each call, a current model that is set is a key of the
  mapping.
\<close>

theorem current_model_is_key:
  assumes "current_model (run_operations init_service ops) = Some n"
  shows "models (run_operations init_service ops) n \<noteq> None"
proof -
  have "\<And>k. current_model init_service = Some k \<Longrightarrow> models init_service k \<noteq> None"
    by (simp add: init_service_def)
  with assms show ?thesis by (rule run_operations_current [rotated])
qed

text \<open>A failed load, a successful one, a generation and another failed load.\<close>

theorem current_model_is_key_witness:
  "current_model (run_operations init_service
      [Load broken_tokenizer ''x'', Load working_adapter ''m'',
       Generate working_adapter (PStr ''hi'') (PInt 800) (PFloat 0.7),
       Load missing_library ''y'']) = Some ''m''
   \<and> models (run_operations init_service
      [Load broken_tokenizer ''x'', Load working_adapter ''m'',
       Generate working_adapter (PStr ''hi'') (PInt 800) (PFloat 0.7),
       Load missing_library ''y'']) ''m'' \<noteq> None"
proof -
  have c: "current_model (run_operations init_service
      [Load broken_tokenizer ''x'', Load working_adapter ''m'',
       Generate working_adapter (PStr ''hi'') (PInt 800) (PFloat 0.7),
       Load missing_library ''y'']) = Some ''m''"
    by (simp add: generate_text_state load_model_def build_handle_def broken_tokenizer_def
        working_adapter_def missing_library_def init_service_def Let_def)
  from current_model_is_key [OF c] c show ?thesis by simp
qed

section \<open>Properties of the generation pipeline\<close>

text \<open>On a string the fallback responder answers with one of its templates, none empty.\<close>

lemma fallback_string_returns:
  "generate_fallback_response (PStr p) = Inr business_case_template
   \<or> generate_fallback_response (PStr p) = Inr feasibility_template
   \<or> generate_fallback_response (PStr p) = Inr generic_template"
  by simp

lemma templates_nonempty:
  "business_case_template \<noteq> []" "feasibility_template \<noteq> []" "generic_template \<noteq> []"
  by (simp_all add: business_case_template_def feasibility_template_def generic_template_def)

lemma fallback_string_nonempty:
  "\<exists>text. generate_fallback_response (PStr p) = Inr text \<and> text \<noteq> []"
  using fallback_string_returns [of p] templates_nonempty by auto

text \<open>On a string prompt no exception leaves \<^verbatim>\<open>generate_text\<close>.\<close>

lemma generate_text_string_returns:
  "\<exists>text. fst (generate_text env s (PStr p) max_length temperature) = Inr text"
proof (cases "generate_text_try env s (PStr p) max_length temperature")
  case (Inl e)
  with fallback_string_nonempty [of p] show ?thesis by (auto simp: generate_text_def)
next
  case (Inr answer)
  then show ?thesis by (simp add: generate_text_def)
qed

lemma generate_text_no_model:
  assumes "current_model s = None \<or> (\<exists>cur. current_model s = Some cur \<and> models s cur = None)"
  shows "fst (generate_text env s (PStr p) max_length temperature) = generate_fallback_response (PStr p)"
  using assms fallback_string_nonempty [of p]
  by (auto simp: generate_text_def generate_text_try_def split: sum.splits)

lemma generate_text_with_model:
  assumes "current_model s = Some cur" and "models s cur = Some h"
    and "out = call_generator env (generator h) (PStr p) max_length temperature
                 (eos_token_id (pipeline_tokenizer (generator h)))"
  shows "fst (generate_text env s (PStr p) max_length temperature) =
           (case out of
              Inl e \<Rightarrow> generate_fallback_response (PStr p)
            | Inr [] \<Rightarrow> generate_fallback_response (PStr p)
            | Inr (r # rs) \<Rightarrow>
                (case r ''generated_text'' of
                   None \<Rightarrow> generate_fallback_response (PStr p)
                 | Some text \<Rightarrow> Inr (strip text)))"
  using assms fallback_string_nonempty [of p]
  by (auto simp: generate_text_def generate_text_try_def split: sum.splits list.splits option.splits)

text \<open>
  C1, as the code has it. For every string prompt \<^verbatim>\<open>generate_text\<close> returns a text and
  leaves the service unchanged. The text is the (non-empty) fallback when no current
  model is set, when the current model is not a key of the mapping, when the pipeline
  call raises, when it returns an empty list, and when its first response has no
  generated text. Otherwise it is the generated text of the first response with the
  surrounding whitespace removed, whatever is left of it.
\<close>

theorem generate_text_never_raises:
  fixes env :: adapter and s :: service and p :: string and max_length temperature :: pyval
  defines "result \<equiv> fst (generate_text env s (PStr p) max_length temperature)"
  defines "out \<equiv> (\<lambda>h. call_generator env (generator h) (PStr p) max_length temperature
                          (eos_token_id (pipeline_tokenizer (generator h))))"
  shows "(\<exists>text. result = Inr text)
       \<and> snd (generate_text env s (PStr p) max_length temperature) = s
       \<and> (\<exists>text. generate_fallback_response (PStr p) = Inr text \<and> text \<noteq> [])
       \<and> (current_model s = None \<longrightarrow> result = generate_fallback_response (PStr p))
       \<and> (current_model s = Some cur \<and> models s cur = None \<longrightarrow>
            result = generate_fallback_response (PStr p))
       \<and> (current_model s = Some cur \<and> models s cur = Some h \<and> out h = Inl e \<longrightarrow>
            result = generate_fallback_response (PStr p))
       \<and> (current_model s = Some cur \<and> models s cur = Some h \<and> out h = Inr [] \<longrightarrow>
            result = generate_fallback_response (PStr p))
       \<and> (current_model s = Some cur \<and> models s cur = Some h \<and> out h = Inr (r # rs)
            \<and> r ''generated_text'' = None \<longrightarrow>
            result = generate_fallback_response (PStr p))
       \<and> (current_model s = Some cur \<and> models s cur = Some h \<and> out h = Inr (r # rs)
            \<and> r ''generated_text'' = Some answer \<longrightarrow>
            result = Inr (strip answer))"
proof (intro conjI impI)
  show "\<exists>text. result = Inr text"
    unfolding result_def by (rule generate_text_string_returns)
  show "snd (generate_text env s (PStr p) max_length temperature) = s"
    by (simp add: generate_text_def split: sum.splits)
  show "\<exists>text. generate_fallback_response (PStr p) = Inr text \<and> text \<noteq> []"
    by (rule fallback_string_nonempty)
  show "result = generate_fallback_response (PStr p)" if "current_model s = None"
    unfolding result_def using that by (intro generate_text_no_model) simp
  show "result = generate_fallback_response (PStr p)"
    if "current_model s = Some cur \<and> models s cur = None"
    unfolding result_def using that by (intro generate_text_no_model) simp
  show "result = generate_fallback_response (PStr p)"
    if "current_model s = Some cur \<and> models s cur = Some h \<and> out h = Inl e"
    unfolding result_def using that generate_text_with_model [of s cur h _ env p max_length temperature]
    by (simp add: out_def)
  show "result = generate_fallback_response (PStr p)"
    if "current_model s = Some cur \<and> models s cur = Some h \<and> out h = Inr []"
    unfolding result_def using that generate_text_with_model [of s cur h _ env p max_length temperature]
    by (simp add: out_def)
  show "result = generate_fallback_response (PStr p)"
    if "current_model s = Some cur \<and> models s cur = Some h \<and> out h = Inr (r # rs)
            \<and> r ''generated_text'' = None"
    unfolding result_def using that generate_text_with_model [of s cur h _ env p max_length temperature]
    by (simp add: out_def)
  show "result = Inr (strip answer)"
    if "current_model s = Some cur \<and> models s cur = Some h \<and> out h = Inr (r # rs)
            \<and> r ''generated_text'' = Some answer"
    unfolding result_def using that generate_text_with_model [of s cur h _ env p max_length temperature]
    by (simp add: out_def)
qed

text \<open>
  The cases on the sample environments: no model, a raising pipeline, a silent pipeline
  and an answering one.
\<close>

theorem generate_text_never_raises_witness:
  "fst (generate_text working_adapter init_service (PStr ''hi'') (PInt 800) (PFloat 0.7)) = Inr generic_template
   \<and> fst (generate_text raising_pipeline loaded_service (PStr ''hi'') (PInt 800) (PFloat 0.7)) = Inr generic_template
   \<and> fst (generate_text silent_pipeline loaded_service (PStr ''hi'') (PInt 800) (PFloat 0.7)) = Inr generic_template
   \<and> fst (generate_text working_adapter loaded_service (PStr ''hi'') (PInt 800) (PFloat 0.7)) = Inr ''Hello there.''
   \<and> snd (generate_text working_adapter loaded_service (PStr ''hi'') (PInt 800) (PFloat 0.7)) = loaded_service"
proof -
  have fresh: "current_model init_service = None"
    by (simp add: init_service_def)
  have cur: "current_model loaded_service = Some ''m''"
    by (simp add: loaded_service_eq)
  have key: "models loaded_service ''m'' = Some sample_handle"
    by (simp add: loaded_service_eq)
  have fb: "generate_fallback_response (PStr ''hi'') = Inr generic_template"
    by code_simp
  have raises: "call_generator raising_pipeline (generator sample_handle) (PStr ''hi'') (PInt 800)
      (PFloat 0.7) (eos_token_id (pipeline_tokenizer (generator sample_handle))) = Inl AdapterError"
    by (simp add: raising_pipeline_def working_adapter_def)
  have silent: "call_generator silent_pipeline (generator sample_handle) (PStr ''hi'') (PInt 800)
      (PFloat 0.7) (eos_token_id (pipeline_tokenizer (generator sample_handle))) = Inr []"
    by (simp add: silent_pipeline_def working_adapter_def)
  have answers: "call_generator working_adapter (generator sample_handle) (PStr ''hi'') (PInt 800)
      (PFloat 0.7) (eos_token_id (pipeline_tokenizer (generator sample_handle)))
      = Inr ([''generated_text'' \<mapsto> ''  Hello there. ''] # [])"
    by (simp add: working_adapter_def)
  have field: "[''generated_text'' \<mapsto> ''  Hello there. ''] ''generated_text'' = Some ''  Hello there. ''"
    by simp
  have trimmed: "strip ''  Hello there. '' = ''Hello there.''"
    by (simp add: strip_def is_space_def)
  have a: "fst (generate_text working_adapter init_service (PStr ''hi'') (PInt 800) (PFloat 0.7)) = Inr generic_template"
    using generate_text_never_raises [where env = working_adapter and s = init_service
        and p = "''hi''" and max_length = "PInt 800" and temperature = "PFloat 0.7"] fresh fb
    by simp
  have b: "fst (generate_text raising_pipeline loaded_service (PStr ''hi'') (PInt 800) (PFloat 0.7)) = Inr generic_template"
    using generate_text_never_raises [where env = raising_pipeline and s = loaded_service
        and p = "''hi''" and max_length = "PInt 800" and temperature = "PFloat 0.7"
        and cur = "''m''" and h = sample_handle and e = AdapterError] cur key raises fb
    by simp
  have c: "fst (generate_text silent_pipeline loaded_service (PStr ''hi'') (PInt 800) (PFloat 0.7)) = Inr generic_template"
    using generate_text_never_raises [where env = silent_pipeline and s = loaded_service
        and p = "''hi''" and max_length = "PInt 800" and temperature = "PFloat 0.7"
        and cur = "''m''" and h = sample_handle] cur key silent fb
    by simp
  have d: "fst (generate_text working_adapter loaded_service (PStr ''hi'') (PInt 800) (PFloat 0.7)) = Inr ''Hello there.''
     \<and> snd (generate_text working_adapter loaded_service (PStr ''hi'') (PInt 800) (PFloat 0.7)) = loaded_service"
    using generate_text_never_raises [where env = working_adapter and s = loaded_service
        and p = "''hi''" and max_length = "PInt 800" and temperature = "PFloat 0.7"
        and cur = "''m''" and h = sample_handle
        and r = "[''generated_text'' \<mapsto> ''  Hello there. '']" and rs = "[]"
        and answer = "''  Hello there. ''"] cur key answers field trimmed
    by simp
  from a b c d show ?thesis by blast
qed

text \<open>
  C1, as the claim words it. A pipeline whose only response is three spaces: the result
  is the empty string, not the fallback text.
\<close>

theorem generate_text_blank_answer:
  "current_model loaded_service = Some ''m''
   \<and> models loaded_service ''m'' = Some sample_handle
   \<and> call_generator blank_pipeline (generator sample_handle) (PStr ''hi'') (PInt 800)
        (PFloat 0.7) (eos_token_id (pipeline_tokenizer (generator sample_handle)))
      = Inr [[''generated_text'' \<mapsto> ''   '']]
   \<and> strip ''   '' = []
   \<and> fst (generate_text blank_pipeline loaded_service (PStr ''hi'') (PInt 800) (PFloat 0.7)) = Inr []
   \<and> generate_fallback_response (PStr ''hi'') = Inr generic_template
   \<and> generic_template \<noteq> []"
proof -
  have fb: "generate_fallback_response (PStr ''hi'') = Inr generic_template"
    by code_simp
  have blank: "strip ''   '' = []"
    by (simp add: strip_def is_space_def)
  have run: "fst (generate_text blank_pipeline loaded_service (PStr ''hi'') (PInt 800) (PFloat 0.7)) = Inr []"
    by (simp add: generate_text_def generate_text_try_def loaded_service_eq blank_pipeline_def
        working_adapter_def blank)
  from fb blank run templates_nonempty(3) show ?thesis
    by (simp add: loaded_service_eq blank_pipeline_def working_adapter_def)
qed

section \<open>Properties of the request handlers\<close>

subsection \<open>Exit status of the command line\<close>

text \<open>
  With \<^verbatim>\<open>--install\<close> as the first argument the script never reaches \<^verbatim>\<open>main\<close>; with
  \<^verbatim>\<open>--server\<close> it starts the server, which ends the process with status 1 when
  \<^verbatim>\<open>flask\<close> is missing. Inside \<^verbatim>\<open>main\<close> a failed installation gives status 1, and a run
  with nothing else to do gives status 0.
\<close>

lemma run_script_install_first:
  assumes "length argv > 1" and "argv ! 1 = ''--install''"
  shows "run_script env parse_args argv = Exited 0 []"
  using assms by (simp add: run_script_def)

lemma run_script_server:
  assumes "length argv > 1" and "argv ! 1 = ''--server''"
  shows "run_script env parse_args argv = start_server env"
  using assms by (simp add: run_script_def)

lemma start_server_without_flask: "start_server missing_flask = Exited 1 []"
  by (simp add: start_server_def missing_flask_def)

lemma main_install_failure:
  assumes "parse_args (tl argv) = Inr args" and "arg_install args" and "\<not> install_dependencies env"
  shows "main env parse_args argv = (1, [])"
  using assms by (simp add: main_def)

lemma main_install_success:
  assumes "parse_args (tl argv) = Inr args" and "arg_install args \<longrightarrow> install_dependencies env"
    and "arg_prompt args = None \<or> arg_prompt args = Some []"
  shows "main env parse_args argv = (0, [])"
  using assms by (auto simp: main_def)

text \<open>
  C3. Without the library and with \<^verbatim>\<open>pip\<close> failing, the installation routine returns
  \<^verbatim>\<open>False\<close>. Run as \<^verbatim>\<open>local_llm_service.py --install\<close> the script still ends with
  status 0, because the first branch of the dispatch drops that result; only when the
  flag is not the first argument does \<^verbatim>\<open>main\<close> see it and end with status 1.
\<close>

theorem run_script_install_exit_status:
  "install_dependencies missing_library = False
   \<and> run_script missing_library install_parser [''local_llm_service.py'', ''--install''] = Exited 0 []
   \<and> install_parser (tl [''local_llm_service.py'', ''--model'', ''m'', ''--install'']) = Inr install_args
   \<and> arg_install install_args
   \<and> run_script missing_library install_parser [''local_llm_service.py'', ''--model'', ''m'', ''--install'']
       = Exited 1 []"
proof -
  have fails: "install_dependencies missing_library = False"
    by (simp add: install_dependencies_def missing_library_def working_adapter_def packages_def)
  have flag: "arg_install install_args"
    by (simp add: install_args_def)
  have first: "run_script missing_library install_parser [''local_llm_service.py'', ''--install''] = Exited 0 []"
    by (rule run_script_install_first) simp_all
  have later: "run_script missing_library install_parser
      [''local_llm_service.py'', ''--model'', ''m'', ''--install''] = Exited 1 []"
    using fails flag by (simp add: run_script_def main_def install_parser_def)
  from fails flag first later show ?thesis by (simp add: install_parser_def)
qed

subsection \<open>Status codes of the HTTP handler\<close>

text \<open>A falsy prompt is refused; a non-empty string prompt is answered by the pipeline.\<close>

lemma route_missing_prompt:
  assumes "\<not> truthy (dict_get d ''prompt'' (PStr []))"
  shows "generate_route exc_str env s (Inr (PDict d)) =
           \<lparr>status_code = 400, body = [(''error'', PStr ''No prompt provided'')]\<rparr>"
  using assms by (simp add: generate_route_def generate_route_try_def)

lemma route_string_prompt:
  assumes "map_of d ''prompt'' = Some (PStr p)" and "p \<noteq> []"
  shows "\<exists>answer.
           fst (generate_text env s (PStr p) (dict_get d ''max_length'' (PInt 500))
                  (dict_get d ''temperature'' (PFloat 0.7))) = Inr answer
           \<and> generate_route exc_str env s (Inr (PDict d)) =
               \<lparr>status_code = 200,
                body = [(''generated_text'', PStr answer), (''status'', PStr ''success'')]\<rparr>"
proof -
  obtain answer where "fst (generate_text env s (PStr p) (dict_get d ''max_length'' (PInt 500))
                  (dict_get d ''temperature'' (PFloat 0.7))) = Inr answer"
    using generate_text_string_returns by blast
  with assms show ?thesis
    by (simp add: generate_route_def generate_route_try_def dict_get_def)
qed

text \<open>
  C9, as the code has it. For a JSON object whose prompt is missing or the empty string
  the response is 400 with the single key "error" and the value "No prompt provided".
  For a JSON object whose prompt is a non-empty string the pipeline returns a text and
  the response is 200 with that text under "generated_text" and "success" under
  "status".
\<close>

theorem route_validation:
  "(map_of d ''prompt'' = None \<or> map_of d ''prompt'' = Some (PStr []) \<longrightarrow>
      generate_route exc_str env s (Inr (PDict d)) =
        \<lparr>status_code = 400, body = [(''error'', PStr ''No prompt provided'')]\<rparr>)
   \<and> (map_of d ''prompt'' = Some (PStr p) \<and> p \<noteq> [] \<longrightarrow>
        (\<exists>answer.
           fst (generate_text env s (PStr p) (dict_get d ''max_length'' (PInt 500))
                  (dict_get d ''temperature'' (PFloat 0.7))) = Inr answer
           \<and> generate_route exc_str env s (Inr (PDict d)) =
               \<lparr>status_code = 200,
                body = [(''generated_text'', PStr answer), (''status'', PStr ''success'')]\<rparr>))"
proof (intro conjI impI)
  assume "map_of d ''prompt'' = None \<or> map_of d ''prompt'' = Some (PStr [])"
  then have "\<not> truthy (dict_get d ''prompt'' (PStr []))"
    by (auto simp: dict_get_def)
  then show "generate_route exc_str env s (Inr (PDict d)) =
        \<lparr>status_code = 400, body = [(''error'', PStr ''No prompt provided'')]\<rparr>"
    by (rule route_missing_prompt)
next
  assume "map_of d ''prompt'' = Some (PStr p) \<and> p \<noteq> []"
  then show "\<exists>answer.
           fst (generate_text env s (PStr p) (dict_get d ''max_length'' (PInt 500))
                  (dict_get d ''temperature'' (PFloat 0.7))) = Inr answer
           \<and> generate_route exc_str env s (Inr (PDict d)) =
               \<lparr>status_code = 200,
                body = [(''generated_text'', PStr answer), (''status'', PStr ''success'')]\<rparr>"
    using route_string_prompt by blast
qed

text \<open>The body \<^verbatim>\<open>{}\<close> and a feasibility request, on a service without a model.\<close>

theorem route_validation_witness:
  "map_of [] ''prompt'' = (None :: pyval option)
   \<and> generate_route error_text working_adapter init_service (Inr (PDict [])) =
        \<lparr>status_code = 400, body = [(''error'', PStr ''No prompt provided'')]\<rparr>
   \<and> map_of [(''prompt'', PStr ''Give me a feasibility study'')] ''prompt''
        = Some (PStr ''Give me a feasibility study'')
   \<and> generate_route error_text working_adapter init_service
        (Inr (PDict [(''prompt'', PStr ''Give me a feasibility study'')])) =
        \<lparr>status_code = 200,
         body = [(''generated_text'', PStr feasibility_template), (''status'', PStr ''success'')]\<rparr>"
proof -
  have none: "map_of [] ''prompt'' = (None :: pyval option)"
    by simp
  have some: "map_of [(''prompt'', PStr ''Give me a feasibility study'')] ''prompt''
        = Some (PStr ''Give me a feasibility study'')"
    by simp
  have ne: "''Give me a feasibility study'' \<noteq> []"
    by simp
  have fb: "generate_fallback_response (PStr ''Give me a feasibility study'') = Inr feasibility_template"
    by code_simp
  have run: "fst (generate_text working_adapter init_service (PStr ''Give me a feasibility study'')
      (dict_get [(''prompt'', PStr ''Give me a feasibility study'')] ''max_length'' (PInt 500))
      (dict_get [(''prompt'', PStr ''Give me a feasibility study'')] ''temperature'' (PFloat 0.7)))
      = Inr feasibility_template"
    using fb by (simp add: generate_text_def generate_text_try_def init_service_def del: generate_fallback_response.simps)
  have a: "generate_route error_text working_adapter init_service (Inr (PDict [])) =
        \<lparr>status_code = 400, body = [(''error'', PStr ''No prompt provided'')]\<rparr>"
    using route_validation [where d = "[]" and exc_str = error_text and env = working_adapter
        and s = init_service] none
    by blast
  have b: "generate_route error_text working_adapter init_service
        (Inr (PDict [(''prompt'', PStr ''Give me a feasibility study'')])) =
        \<lparr>status_code = 200,
         body = [(''generated_text'', PStr feasibility_template), (''status'', PStr ''success'')]\<rparr>"
    using route_validation [where d = "[(''prompt'', PStr ''Give me a feasibility study'')]"
        and p = "''Give me a feasibility study''" and exc_str = error_text
        and env = working_adapter and s = init_service] some ne run
    by auto
  from none some a b show ?thesis by blast
qed

text \<open>
  C9, as the claim words it. The prompt 5 is not empty for the handler's test, but it
  cannot be sliced for the log line: the response is 500.
\<close>

theorem route_number_prompt:
  "map_of [(''prompt'', PInt 5)] ''prompt'' = Some (PInt 5)
   \<and> truthy (PInt 5)
   \<and> generate_route error_text working_adapter init_service (Inr (PDict [(''prompt'', PInt 5)])) =
        \<lparr>status_code = 500, body = [(''error'', PStr ''TypeError''), (''status'', PStr ''error'')]\<rparr>"
  by (simp add: generate_route_def generate_route_try_def dict_get_def)

text \<open>
  The handler's test \<^verbatim>\<open>if not prompt\<close> is the truthiness of the value: these seven
  values are the falsy ones, and 400 is the answer exactly for them.
\<close>

lemma falsy_values:
  "\<not> truthy v \<longleftrightarrow> v \<in> {PNone, PBool False, PInt 0, PFloat 0, PStr [], PList [], PDict []}"
  by (cases v) auto

lemma route_status_400:
  "status_code (generate_route exc_str env s (Inr (PDict d))) = 400
     \<longleftrightarrow> \<not> truthy (dict_get d ''prompt'' (PStr []))"
  by (auto simp: generate_route_def generate_route_try_def Let_def split: sum.splits)

text \<open>
  C10, as the code has it. A prompt that is a non-empty string of whitespace only is not
  refused: the pipeline is called on it and the response is 200 with status "success".
  The 400 validation is a truthiness test: for a JSON object the response is 400 exactly
  when the prompt is missing or is one of the falsy values null, false, 0, 0.0, the empty
  string, the empty list and the empty object; no non-empty string is refused.
\<close>

theorem route_whitespace_prompt:
  "(map_of d ''prompt'' = Some (PStr p) \<and> p \<noteq> [] \<and> list_all is_space p \<longrightarrow>
      (\<exists>answer.
         fst (generate_text env s (PStr p) (dict_get d ''max_length'' (PInt 500))
                (dict_get d ''temperature'' (PFloat 0.7))) = Inr answer
         \<and> generate_route exc_str env s (Inr (PDict d)) =
             \<lparr>status_code = 200,
              body = [(''generated_text'', PStr answer), (''status'', PStr ''success'')]\<rparr>))
   \<and> (status_code (generate_route exc_str env s (Inr (PDict d))) = 400 \<longleftrightarrow>
        (case map_of d ''prompt'' of
           None \<Rightarrow> True
         | Some v \<Rightarrow> v \<in> {PNone, PBool False, PInt 0, PFloat 0, PStr [], PList [], PDict []}))"
proof (intro conjI impI)
  assume "map_of d ''prompt'' = Some (PStr p) \<and> p \<noteq> [] \<and> list_all is_space p"
  then show "\<exists>answer.
         fst (generate_text env s (PStr p) (dict_get d ''max_length'' (PInt 500))
                (dict_get d ''temperature'' (PFloat 0.7))) = Inr answer
         \<and> generate_route exc_str env s (Inr (PDict d)) =
             \<lparr>status_code = 200,
              body = [(''generated_text'', PStr answer), (''status'', PStr ''success'')]\<rparr>"
    using route_string_prompt by blast
next
  show "status_code (generate_route exc_str env s (Inr (PDict d))) = 400 \<longleftrightarrow>
        (case map_of d ''prompt'' of
           None \<Rightarrow> True
         | Some v \<Rightarrow> v \<in> {PNone, PBool False, PInt 0, PFloat 0, PStr [], PList [], PDict []})"
    unfolding route_status_400
    by (cases "map_of d ''prompt''") (simp_all add: dict_get_def falsy_values)
qed

text \<open>The prompt of one space is answered; the prompt \<^verbatim>\<open>null\<close> is refused.\<close>

theorem route_whitespace_prompt_witness:
  "map_of [(''prompt'', PStr '' '')] ''prompt'' = Some (PStr '' '')
   \<and> '' '' \<noteq> []
   \<and> list_all is_space '' ''
   \<and> generate_route error_text working_adapter init_service
        (Inr (PDict [(''prompt'', PStr '' '')])) =
        \<lparr>status_code = 200,
         body = [(''generated_text'', PStr generic_template), (''status'', PStr ''success'')]\<rparr>
   \<and> map_of [(''prompt'', PNone)] ''prompt'' = Some PNone
   \<and> status_code (generate_route error_text working_adapter init_service
        (Inr (PDict [(''prompt'', PNone)]))) = 400"
proof -
  have some: "map_of [(''prompt'', PStr '' '')] ''prompt'' = Some (PStr '' '')"
    by simp
  have ne: "'' '' \<noteq> []"
    by simp
  have ws: "list_all is_space '' ''"
    by (simp add: is_space_def)
  have null: "map_of [(''prompt'', PNone)] ''prompt'' = Some PNone"
    by simp
  have fb: "generate_fallback_response (PStr '' '') = Inr generic_template"
    by code_simp
  have run: "fst (generate_text working_adapter init_service (PStr '' '')
      (dict_get [(''prompt'', PStr '' '')] ''max_length'' (PInt 500))
      (dict_get [(''prompt'', PStr '' '')] ''temperature'' (PFloat 0.7)))
      = Inr generic_template"
    using fb by (simp add: generate_text_def generate_text_try_def init_service_def
        del: generate_fallback_response.simps)
  have a: "generate_route error_text working_adapter init_service
        (Inr (PDict [(''prompt'', PStr '' '')])) =
        \<lparr>status_code = 200,
         body = [(''generated_text'', PStr generic_template), (''status'', PStr ''success'')]\<rparr>"
    using route_whitespace_prompt [where d = "[(''prompt'', PStr '' '')]" and p = "'' ''"
        and env = working_adapter and s = init_service and exc_str = error_text] some ne ws run
    by auto
  have b: "status_code (generate_route error_text working_adapter init_service
        (Inr (PDict [(''prompt'', PNone)]))) = 400"
    using route_whitespace_prompt [where d = "[(''prompt'', PNone)]"
        and env = working_adapter and s = init_service and exc_str = error_text] null
    by simp
  from some ne ws a null b show ?thesis by blast
qed

text \<open>
  C10, as the claim words it. The prompt 0 is present and is not the empty string, and
  the response is 400.
\<close>

theorem route_zero_prompt:
  "map_of [(''prompt'', PInt 0)] ''prompt'' = Some (PInt 0)
   \<and> PInt 0 \<noteq> PStr []
   \<and> generate_route error_text working_adapter init_service (Inr (PDict [(''prompt'', PInt 0)])) =
        \<lparr>status_code = 400, body = [(''error'', PStr ''No prompt provided'')]\<rparr>"
  by (simp add: generate_route_def generate_route_try_def dict_get_def)

end
